theory Spec2Isabelle
  imports Main "HOL-Library.Product_Lexorder"
begin

section \<open>Python values and string primitives\<close>

text \<open>
  Strings are Python \<open>str\<close> values restricted to the code points below 256: a \<open>char\<close>
  is one code point. Field values of the scraped image entries are the scalars
  \<open>None\<close>, \<open>bool\<close>, \<open>int\<close> and \<open>str\<close>; floating-point numbers and nested containers as
  field values are outside the model.
\<close>

datatype pyval = VNone | VBool bool | VInt int | VStr string

type_synonym pydict = "string \<rightharpoonup> pyval"

text \<open>\<open>d.get(k)\<close>: a missing key reads as \<open>None\<close>.\<close>

definition dget :: "pydict \<Rightarrow> string \<Rightarrow> pyval" where
  "dget d k = (case d k of None \<Rightarrow> VNone | Some v \<Rightarrow> v)"

fun truthy :: "pyval \<Rightarrow> bool" where
  "truthy VNone = False"
| "truthy (VBool b) = b"
| "truthy (VInt n) = (n \<noteq> 0)"
| "truthy (VStr s) = (s \<noteq> [])"

text \<open>\<open>a or b\<close> on values.\<close>

definition py_or :: "pyval \<Rightarrow> pyval \<Rightarrow> pyval" where
  "py_or a b = (if truthy a then a else b)"

definition digit_char :: "nat \<Rightarrow> char" where
  "digit_char d = char_of (48 + d)"

fun show_nat :: "nat \<Rightarrow> string" where
  "show_nat n = (if n < 10 then [digit_char n] else show_nat (n div 10) @ [digit_char (n mod 10)])"

text \<open>\<open>str(v)\<close>.\<close>

fun py_str :: "pyval \<Rightarrow> string" where
  "py_str VNone = ''None''"
| "py_str (VBool b) = (if b then ''True'' else ''False'')"
| "py_str (VInt n) = (if n < 0 then CHR ''-'' # show_nat (nat (- n)) else show_nat (nat n))"
| "py_str (VStr s) = s"

text \<open>
  \<open>c.isspace()\<close> for a code point below 256: the ASCII white space, the separators
  \<open>0x1c..0x1f\<close>, \<open>0x85\<close> and the no-break space \<open>0xa0\<close>.
\<close>

definition is_space :: "char \<Rightarrow> bool" where
  "is_space c = (let n = (of_char c :: nat) in
     (9 \<le> n \<and> n \<le> 13) \<or> (28 \<le> n \<and> n \<le> 32) \<or> n = 133 \<or> n = 160)"

text \<open>\<open>s.strip()\<close>.\<close>

definition strip :: "string \<Rightarrow> string" where
  "strip s = rev (dropWhile is_space (rev (dropWhile is_space s)))"

text \<open>
  \<open>c.lower()\<close> for a code point below 256: \<open>A..Z\<close> and the Latin-1 capitals
  \<open>0xc0..0xde\<close> (without the multiplication sign \<open>0xd7\<close>) move up by 32.
\<close>

definition lower_char :: "char \<Rightarrow> char" where
  "lower_char c = (let n = (of_char c :: nat) in
     if (65 \<le> n \<and> n \<le> 90) \<or> (192 \<le> n \<and> n \<le> 222 \<and> n \<noteq> 215) then char_of (n + 32) else c)"

definition lower :: "string \<Rightarrow> string" where
  "lower s = map lower_char s"

text \<open>\<open>s.split(":")[0]\<close>: the part before the first colon.\<close>

definition split_colon_first :: "string \<Rightarrow> string" where
  "split_colon_first s = takeWhile (\<lambda>c. c \<noteq> CHR '':'') s"

text \<open>
  \<open>c.isdecimal()\<close> and \<open>c.isdigit()\<close> for a code point below 256: the second also
  accepts the superscript digits \<open>0xb2\<close>, \<open>0xb3\<close> and \<open>0xb9\<close>, which \<open>int()\<close> rejects.
\<close>

definition is_decimal_char :: "char \<Rightarrow> bool" where
  "is_decimal_char c = (let n = (of_char c :: nat) in 48 \<le> n \<and> n \<le> 57)"

definition is_digit_char :: "char \<Rightarrow> bool" where
  "is_digit_char c = (let n = (of_char c :: nat) in (48 \<le> n \<and> n \<le> 57) \<or> n = 178 \<or> n = 179 \<or> n = 185)"

text \<open>\<open>s.isdigit()\<close>: false on the empty string.\<close>

definition isdigit :: "string \<Rightarrow> bool" where
  "isdigit s = (s \<noteq> [] \<and> list_all is_digit_char s)"

text \<open>
  JSON values as \<open>json.loads\<close> and \<open>Response.json()\<close> return them (numbers are
  integers; floating point is left out). An object is an association list in which the
  first binding of a key counts.
\<close>

datatype json = JNull | JBool bool | JNum int | JStr string | JArr "json list" | JObj "(string \<times> json) list"

text \<open>
  The argument of \<open>RuntimeError\<close> raised for a JSON-RPC error: the value under
  \<open>message\<close>, or \<open>str()\<close> of the error object when it has no such key.
\<close>

datatype err_payload = Msg json | StrOf json

text \<open>
  The exceptions of the model. \<open>UrlNotSet\<close> is \<open>RuntimeError("mcp_publish_url not set")\<close>,
  \<open>RemoteError\<close> the \<open>RuntimeError\<close> raised for a JSON-RPC error, \<open>NoResult\<close> is
  \<open>RuntimeError("No result in MCP response")\<close>, \<open>HTTPStatusError\<close> comes from
  \<open>raise_for_status\<close>, \<open>JSONDecodeError\<close> from \<open>Response.json()\<close>, \<open>TransportError\<close>
  from \<open>client.post\<close> and \<open>ToolError\<close> from an in-process tool.
\<close>

datatype py_error = ValueError | TypeError | AttributeError | UrlNotSet | RemoteError err_payload
  | NoResult | HTTPStatusError nat | JSONDecodeError | TransportError | ToolError

definition decimal_value :: "string \<Rightarrow> nat" where
  "decimal_value s = foldl (\<lambda>acc c. 10 * acc + (of_char c - 48)) 0 s"

text \<open>
  \<open>int(v)\<close> as it is reached in \<open>score\<close>, on a value that is not \<open>None\<close> and whose
  \<open>str\<close> passed \<open>isdigit\<close>: a string of digit characters converts when every character is a
  decimal digit and raises \<open>ValueError\<close> otherwise.
\<close>

fun py_int :: "pyval \<Rightarrow> py_error + int" where
  "py_int VNone = Inl TypeError"
| "py_int (VBool b) = Inr (if b then 1 else 0)"
| "py_int (VInt n) = Inr n"
| "py_int (VStr s) = (if s \<noteq> [] \<and> list_all is_decimal_char s then Inr (int (decimal_value s)) else Inl ValueError)"


section \<open>Image selection (\<open>backend/app/nodes/image.py\<close>)\<close>

text \<open>
  \<open>urllib.parse.urlparse\<close> belongs to the Python standard library, not to this
  repository: the functions below take it as the parameter \<open>up\<close>, which returns the parts
  of a URL the code reads, or \<open>None\<close> where \<open>urlparse\<close> raises.
\<close>

record url_parts =
  url_scheme :: string
  url_netloc :: string
  url_path :: string

type_synonym urlparse = "string \<Rightarrow> url_parts option"

definition same_site :: "urlparse \<Rightarrow> string \<Rightarrow> string \<Rightarrow> bool" where
  "same_site up article_url image_url =
     (case up article_url of
        None \<Rightarrow> False
      | Some a \<Rightarrow>
          (case up image_url of
             None \<Rightarrow> False
           | Some i \<Rightarrow> url_netloc a \<noteq> [] \<and> url_netloc i \<noteq> []
                        \<and> lower (url_netloc a) = lower (url_netloc i)))"

definition is_local_or_unusable :: "urlparse \<Rightarrow> string \<Rightarrow> bool" where
  "is_local_or_unusable up url =
     (if url = [] \<or> strip url = [] then True
      else (case up (strip url) of
              None \<Rightarrow> True
            | Some p \<Rightarrow>
                (let netloc = split_colon_first (lower (url_netloc p))
                 in if netloc \<in> set [''localhost'', ''127.0.0.1'', ''::1''] then True else False)))"

text \<open>
  \<open>_ordered_candidates\<close> removes the og match with \<open>i is not im\<close>, a test of object
  identity. The image dicts therefore live in a store: an image is a reference, and the
  store maps a reference to the dict it holds.
\<close>

type_synonym ref = nat
type_synonym store = "ref \<Rightarrow> pydict"

text \<open>One of \<open>w\<close> and \<open>h\<close> in \<open>score\<close>.\<close>

definition dimension :: "pyval \<Rightarrow> py_error + int" where
  "dimension v = (if v \<noteq> VNone \<and> isdigit (py_str v) then py_int (py_or v (VInt 0)) else Inr 0)"

definition score :: "urlparse \<Rightarrow> string \<Rightarrow> pydict \<Rightarrow> py_error + (int \<times> int)" where
  "score up article_url im =
     (let src = py_str (py_or (dget im ''src'') (VStr []));
          same = (if same_site up article_url src then 1 else 0)
      in case dimension (dget im ''width'') of
           Inl e \<Rightarrow> Inl e
         | Inr w \<Rightarrow>
             (case dimension (dget im ''height'') of
                Inl e \<Rightarrow> Inl e
              | Inr h \<Rightarrow> Inr (same, w * h)))"

text \<open>The keys of all images, computed front to back; the first exception ends it.\<close>

fun score_all :: "urlparse \<Rightarrow> string \<Rightarrow> store \<Rightarrow> ref list \<Rightarrow> py_error + (int \<times> int) list" where
  "score_all up article_url st [] = Inr []"
| "score_all up article_url st (r # rs) =
     (case score up article_url (st r) of
        Inl e \<Rightarrow> Inl e
      | Inr k \<Rightarrow>
          (case score_all up article_url st rs of
             Inl e \<Rightarrow> Inl e
           | Inr ks \<Rightarrow> Inr (k # ks)))"

text \<open>
  \<open>sorted(xs, key=..., reverse=True)\<close> on the precomputed keys: a stable sort of the
  reversed list, reversed again, so that equal keys keep their input order.
\<close>

definition sorted_reverse :: "('k::linorder \<times> 'a) list \<Rightarrow> 'a list" where
  "sorted_reverse kxs = map snd (rev (sort_key fst (rev kxs)))"

definition og_match :: "store \<Rightarrow> string \<Rightarrow> ref \<Rightarrow> bool" where
  "og_match st og im = (py_or (dget (st im) ''src'') (VStr []) = VStr og)"

definition ordered_candidates ::
  "urlparse \<Rightarrow> store \<Rightarrow> ref list \<Rightarrow> string \<Rightarrow> string \<Rightarrow> py_error + ref list" where
  "ordered_candidates up st images article_url og =
     (if images = [] then Inr []
      else (case (if og \<noteq> [] then find (og_match st og) images else None) of
              Some im \<Rightarrow> Inr (im # filter (\<lambda>i. i \<noteq> im) images)
            | None \<Rightarrow>
                (case score_all up article_url st images of
                   Inl e \<Rightarrow> Inl e
                 | Inr keys \<Rightarrow> Inr (sorted_reverse (zip keys images)))))"


text \<open>
  Modelled from the spec: \<open>app.state.AgentState\<close>, the typed dict of the pipeline state
  (its declaration is not part of the sources at hand). The keys \<open>select_image\<close> reads or
  writes are fields; \<open>None\<close> stands for a key that is absent or holds \<open>None\<close>. All other
  keys are kept in \<open>other_keys\<close>. An entry of \<open>images\<close> is a dict, a bare string, or
  something else.
\<close>

datatype raw_image = ImDict pydict | ImStr string | ImOther

record scraped =
  sc_url :: "string option"
  sc_images :: "raw_image list option"
  sc_metadata :: "(string \<rightharpoonup> string) option"

record agent_state =
  terminated :: pyval
  url :: "string option"
  scraped_content :: "scraped option"
  image_metadata :: "pydict option"
  updated_at :: "string option"
  other_keys :: "string \<rightharpoonup> pyval"

text \<open>\<open>x or ""\<close> on an optional string.\<close>

definition str_or_empty :: "string option \<Rightarrow> string" where
  "str_or_empty x = (case x of None \<Rightarrow> [] | Some s \<Rightarrow> s)"

text \<open>The normalisation loop of \<open>select_image\<close>: one entry of \<open>raw_images\<close>.\<close>

fun normalize_one :: "raw_image \<Rightarrow> pydict list" where
  "normalize_one (ImDict im) =
     (if truthy (py_or (dget im ''src'') (dget im ''url''))
      then [[''src'' \<mapsto> py_or (dget im ''src'') (dget im ''url''),
             ''alt'' \<mapsto> py_or (dget im ''alt'') (py_or (dget im ''caption'') (VStr [])),
             ''width'' \<mapsto> dget im ''width'',
             ''height'' \<mapsto> dget im ''height'']]
      else [])"
| "normalize_one (ImStr s) = (if strip s \<noteq> [] then [[''src'' \<mapsto> VStr (strip s), ''alt'' \<mapsto> VStr []]] else [])"
| "normalize_one ImOther = []"

definition normalize :: "raw_image list \<Rightarrow> pydict list" where
  "normalize raw_images = concat (map normalize_one raw_images)"

text \<open>\<open>base64.b64encode(blob).decode("ascii")\<close>; a byte is a \<open>char\<close>.\<close>

definition b64_char :: "nat \<Rightarrow> char" where
  "b64_char n = (''ABCDEFGHIJKLMNOPQRSTUVWXYZabcdefghijklmnopqrstuvwxyz0123456789+/'' ! (n mod 64))"

fun b64encode :: "string \<Rightarrow> string" where
  "b64encode [] = []"
| "b64encode [a] =
     (let x = (of_char a :: nat)
      in [b64_char (x div 4), b64_char ((x mod 4) * 16), CHR ''='', CHR ''=''])"
| "b64encode [a, b] =
     (let x = (of_char a :: nat); y = (of_char b :: nat)
      in [b64_char (x div 4), b64_char ((x mod 4) * 16 + y div 16), b64_char ((y mod 16) * 4), CHR ''=''])"
| "b64encode (a # b # c # rest) =
     (let x = (of_char a :: nat); y = (of_char b :: nat); z = (of_char c :: nat)
      in [b64_char (x div 4), b64_char ((x mod 4) * 16 + y div 16),
          b64_char ((y mod 16) * 4 + z div 64), b64_char (z mod 64)] @ b64encode rest)"

text \<open>
  The downloader \<open>app.publish._download_bytes\<close> is an external collaborator: the
  parameter \<open>dl\<close> takes the state of the outside world, the URL and the referer, and returns
  the bytes (\<open>None\<close> where it raises) with the new state of the world. The loop also
  returns the list of the downloader calls it made, as pairs of URL and referer.
\<close>

type_synonym 'w downloader = "'w \<Rightarrow> string \<Rightarrow> string option \<Rightarrow> string option \<times> 'w"

type_synonym call = "string \<times> string option"

definition candidate_src :: "pydict \<Rightarrow> string" where
  "candidate_src chosen = py_str (py_or (dget chosen ''src'') (py_or (dget chosen ''url'') (VStr [])))"

definition candidate_caption :: "pydict \<Rightarrow> string" where
  "candidate_caption chosen = py_str (py_or (dget chosen ''alt'') (py_or (dget chosen ''caption'') (VStr [])))"

definition selected :: "string \<Rightarrow> string \<Rightarrow> string \<Rightarrow> pydict" where
  "selected src caption blob =
     [''image_url'' \<mapsto> VStr src, ''caption'' \<mapsto> VStr caption,
      ''source'' \<mapsto> VStr ''firecrawl'', ''image_base64'' \<mapsto> VStr (b64encode blob)]"

text \<open>
  The candidate loop, started after \<open>state["image_metadata"] = {}\<close>: it returns the
  final value of \<open>image_metadata\<close>, the downloader calls and the world.
\<close>

fun select_loop ::
  "urlparse \<Rightarrow> 'w downloader \<Rightarrow> string option \<Rightarrow> pydict list \<Rightarrow> 'w \<Rightarrow> pydict \<times> call list \<times> 'w" where
  "select_loop up dl referer [] w = (Map.empty, [], w)"
| "select_loop up dl referer (chosen # rest) w =
     (let src = candidate_src chosen
      in if is_local_or_unusable up src then select_loop up dl referer rest w
         else (let caption = candidate_caption chosen
               in case dl w src referer of
                    (Some blob, w') \<Rightarrow>
                      if blob \<noteq> [] then (selected src caption blob, [(src, referer)], w')
                      else (case select_loop up dl referer rest w' of
                              (m, calls, w'') \<Rightarrow> (m, (src, referer) # calls, w''))
                  | (None, w') \<Rightarrow>
                      (case select_loop up dl referer rest w' of
                         (m, calls, w'') \<Rightarrow> (m, (src, referer) # calls, w''))))"

text \<open>
  \<open>select_image\<close>. \<open>now\<close> is the value \<open>now_iso()\<close> returns. The normalised dicts are
  fresh objects: image \<open>r\<close> of the store is the \<open>r\<close>-th of them. The result is the
  exception that left the function (\<open>None\<close> when it returned), the state as the call
  leaves it, the downloader calls and the world. The only exception that can leave comes
  out of \<open>_ordered_candidates\<close>, before the first write to the state.
\<close>

definition image_store :: "pydict list \<Rightarrow> store" where
  "image_store images r = (if r < length images then images ! r else Map.empty)"

definition select_image ::
  "urlparse \<Rightarrow> 'w downloader \<Rightarrow> string \<Rightarrow> 'w \<Rightarrow> agent_state \<Rightarrow> py_error option \<times> agent_state \<times> call list \<times> 'w" where
  "select_image up dl now w state =
     (if truthy (terminated state) then (None, state, [], w)
      else
        (let sc = (case scraped_content state of
                     None \<Rightarrow> \<lparr>sc_url = None, sc_images = None, sc_metadata = None\<rparr>
                   | Some s \<Rightarrow> s);
             article_url = (if str_or_empty (url state) \<noteq> [] then str_or_empty (url state)
                            else str_or_empty (sc_url sc));
             raw_images = (case sc_images sc of None \<Rightarrow> [] | Some l \<Rightarrow> l);
             images = normalize raw_images;
             meta_dict = (case sc_metadata sc of None \<Rightarrow> Map.empty | Some m \<Rightarrow> m);
             og = strip (if str_or_empty (meta_dict ''og:image'') \<noteq> [] then str_or_empty (meta_dict ''og:image'')
                         else str_or_empty (meta_dict ''twitter:image''))
         in case ordered_candidates up (image_store images) [0..<length images] article_url og of
              Inl e \<Rightarrow> (Some e, state, [], w)
            | Inr candidates \<Rightarrow>
                (let referer = (if strip article_url \<noteq> [] then Some (strip article_url) else None)
                 in case select_loop up dl referer (map (image_store images) candidates) w of
                      (m, calls, w') \<Rightarrow>
                        (None, state\<lparr>image_metadata := Some m, updated_at := Some now\<rparr>, calls, w'))))"


text \<open>
  A model of \<open>urllib.parse.urlparse\<close> on URLs without \<open>;parameters\<close>, used where a
  concrete parser is needed: leading control characters and spaces are dropped, tab, CR and
  LF are removed, a scheme is split off at the first colon, after \<open>//\<close> the netloc runs to
  the next \<open>/\<close>, \<open>?\<close> or \<open>#\<close>, and an unmatched bracket in the netloc raises.
\<close>

definition scheme_char :: "char \<Rightarrow> bool" where
  "scheme_char c = (let n = (of_char c :: nat) in
     (97 \<le> n \<and> n \<le> 122) \<or> (65 \<le> n \<and> n \<le> 90) \<or> (48 \<le> n \<and> n \<le> 57) \<or> c \<in> set ''+-.'')"

definition ascii_alpha :: "char \<Rightarrow> bool" where
  "ascii_alpha c = (let n = (of_char c :: nat) in (97 \<le> n \<and> n \<le> 122) \<or> (65 \<le> n \<and> n \<le> 90))"

definition split_scheme :: "string \<Rightarrow> string \<times> string" where
  "split_scheme u =
     (let pre = takeWhile (\<lambda>c. c \<noteq> CHR '':'') u
      in case pre of
           [] \<Rightarrow> ([], u)
         | c # _ \<Rightarrow> if CHR '':'' \<in> set u \<and> ascii_alpha c \<and> list_all scheme_char pre
                    then (lower pre, drop (Suc (length pre)) u) else ([], u))"

definition urlparse_std :: urlparse where
  "urlparse_std url0 =
     (let u = filter (\<lambda>c. c \<notin> set [CHR 0x09, CHR 0x0A, CHR 0x0D]) (dropWhile (\<lambda>c. (of_char c :: nat) \<le> 32) url0);
          (sch, rest) = split_scheme u
      in if take 2 rest = ''//''
         then (let netloc = takeWhile (\<lambda>c. c \<notin> set ''/?#'') (drop 2 rest);
                   after = dropWhile (\<lambda>c. c \<notin> set ''/?#'') (drop 2 rest)
               in if (CHR ''['' \<in> set netloc \<and> CHR '']'' \<notin> set netloc)
                     \<or> (CHR '']'' \<in> set netloc \<and> CHR ''['' \<notin> set netloc)
                  then None
                  else Some \<lparr>url_scheme = sch, url_netloc = netloc,
                             url_path = takeWhile (\<lambda>c. c \<notin> set ''?#'') after\<rparr>)
         else Some \<lparr>url_scheme = sch, url_netloc = [],
                    url_path = takeWhile (\<lambda>c. c \<notin> set ''?#'') rest\<rparr>)"


section \<open>Publish client (\<open>backend/mcp_publish/client.py\<close>)\<close>

fun jtruthy :: "json \<Rightarrow> bool" where
  "jtruthy JNull = False"
| "jtruthy (JBool b) = b"
| "jtruthy (JNum n) = (n \<noteq> 0)"
| "jtruthy (JStr s) = (s \<noteq> [])"
| "jtruthy (JArr xs) = (xs \<noteq> [])"
| "jtruthy (JObj kvs) = (kvs \<noteq> [])"

fun has_infix :: "string \<Rightarrow> string \<Rightarrow> bool" where
  "has_infix p [] = (p = [])"
| "has_infix p (c # cs) = (take (length p) (c # cs) = p \<or> has_infix p cs)"

text \<open>\<open>"error" in data\<close>: key of a dict, element of a list, substring of a string.\<close>

fun contains_error :: "json \<Rightarrow> py_error + bool" where
  "contains_error (JObj kvs) = Inr (''error'' \<in> set (map fst kvs))"
| "contains_error (JArr xs) = Inr (JStr ''error'' \<in> set xs)"
| "contains_error (JStr s) = Inr (has_infix ''error'' s)"
| "contains_error _ = Inl TypeError"

text \<open>\<open>for c in content\<close>: the elements of a list, the characters of a string, the keys of a dict.\<close>

fun iterate :: "json \<Rightarrow> py_error + json list" where
  "iterate (JArr xs) = Inr xs"
| "iterate (JStr s) = Inr (map (\<lambda>c. JStr [c]) s)"
| "iterate (JObj kvs) = Inr (map (\<lambda>kv. JStr (fst kv)) kvs)"
| "iterate _ = Inl TypeError"

text \<open>\<open>[c["text"] for c in content if isinstance(c.get("text"), str)]\<close>.\<close>

fun text_parts :: "json list \<Rightarrow> py_error + string list" where
  "text_parts [] = Inr []"
| "text_parts (JObj kv # cs) =
     (case text_parts cs of
        Inl e \<Rightarrow> Inl e
      | Inr ts \<Rightarrow> (case map_of kv ''text'' of Some (JStr t) \<Rightarrow> Inr (t # ts) | _ \<Rightarrow> Inr ts))"
| "text_parts (_ # cs) = Inl AttributeError"

text \<open>
  Lines 131 to 145 of \<open>_call_remote_tool\<close>: what is made of the decoded body \<open>data\<close> of
  the \<open>tools/call\<close> response. \<open>loads\<close> is \<open>json.loads\<close>, \<open>None\<close> where it raises
  \<open>JSONDecodeError\<close>.
\<close>

definition tool_result :: "(string \<Rightarrow> json option) \<Rightarrow> json \<Rightarrow> py_error + json" where
  "tool_result loads data =
     (case contains_error data of
        Inl e \<Rightarrow> Inl e
      | Inr True \<Rightarrow>
          (case data of
             JObj kvs \<Rightarrow>
               (case map_of kvs ''error'' of
                  Some (JObj e) \<Rightarrow>
                    Inl (RemoteError (case map_of e ''message'' of Some m \<Rightarrow> Msg m | None \<Rightarrow> StrOf (JObj e)))
                | _ \<Rightarrow> Inl AttributeError)
           | _ \<Rightarrow> Inl TypeError)
      | Inr False \<Rightarrow>
          (case data of
             JObj kvs \<Rightarrow>
               (let result = (case map_of kvs ''result'' of None \<Rightarrow> JNull | Some v \<Rightarrow> v)
                in if \<not> jtruthy result then Inl NoResult
                   else (case result of
                           JObj rkvs \<Rightarrow>
                             (let c = (case map_of rkvs ''content'' of None \<Rightarrow> JNull | Some v \<Rightarrow> v);
                                  content = (if jtruthy c then c else JArr [])
                              in case iterate content of
                                   Inl e \<Rightarrow> Inl e
                                 | Inr cs \<Rightarrow>
                                     (case text_parts cs of
                                        Inl e \<Rightarrow> Inl e
                                      | Inr [] \<Rightarrow> Inr (JObj [])
                                      | Inr (raw # _) \<Rightarrow>
                                          (case loads raw of
                                             Some v \<Rightarrow> Inr v
                                           | None \<Rightarrow> Inr (JObj [(''error'', JStr raw), (''status'', JStr ''failure'')]))))
                         | _ \<Rightarrow> Inl AttributeError))
           | _ \<Rightarrow> Inl AttributeError))"


text \<open>
  The module's globals. The two cached tool functions are resolved together, so one flag
  stands for both.
\<close>

record client_state =
  mode_logged :: bool
  tools_resolved :: bool
  remote_initialized :: bool
  remote_session_id :: "string option"

text \<open>
  An HTTP request as \<open>client.post\<close> sends it: the URL, the JSON-RPC method, whether the
  payload has an \<open>id\<close> (a fresh \<open>uuid4\<close>), the \<open>params\<close>, and the \<open>Mcp-Session-Id\<close>
  header when \<open>_session_headers\<close> adds one. A response has its status code, its headers
  and its decoded body (\<open>None\<close> where \<open>Response.json()\<close> raises).
\<close>

record request =
  req_url :: string
  req_method :: string
  req_has_id :: bool
  req_params :: "json option"
  req_session :: "string option"

record response =
  status :: nat
  headers :: "(string \<times> string) list"
  body :: "json option"

text \<open>
  The outside of the module: configuration, the standard library, the HTTP server behind
  \<open>client.post\<close> (a function of the network state \<open>'n\<close>) and the in-process tools.
  \<open>None\<close> from one of these is an exception of its own: \<open>TransportError\<close> from the
  server, \<open>ToolError\<close> from a tool.
\<close>

record 'n env =
  mcp_publish_url :: "string option"
  env_urlparse :: urlparse
  env_loads :: "string \<Rightarrow> json option"
  env_dumps :: "json \<Rightarrow> string"
  env_post :: "'n \<Rightarrow> request \<Rightarrow> response option \<times> 'n"
  env_publish_post :: "'n \<Rightarrow> json list \<Rightarrow> json option \<times> 'n"
  env_upload_media :: "'n \<Rightarrow> json list \<Rightarrow> json option \<times> 'n"

text \<open>The running process: the globals, the network and the requests sent so far.\<close>

record 'n process =
  globals :: client_state
  net :: 'n
  sent :: "request list"

definition is_success :: "response \<Rightarrow> bool" where
  "is_success r = (200 \<le> status r \<and> status r < 300)"

text \<open>\<open>headers.get(name)\<close> of httpx: names compare without case, several values are joined.\<close>

fun join_comma :: "string list \<Rightarrow> string" where
  "join_comma [] = []"
| "join_comma [v] = v"
| "join_comma (v # vs) = v @ '', '' @ join_comma vs"

definition header_get :: "response \<Rightarrow> string \<Rightarrow> string option" where
  "header_get r name =
     (let vs = map snd (filter (\<lambda>kv. lower (fst kv) = lower name) (headers r))
      in if vs = [] then None else Some (join_comma vs))"

definition rstrip_slash :: "string \<Rightarrow> string" where
  "rstrip_slash s = rev (dropWhile (\<lambda>c. c = CHR ''/'') (rev s))"

definition mcp_base_url :: "'n env \<Rightarrow> py_error + string option" where
  "mcp_base_url ev =
     (let u = strip (str_or_empty (mcp_publish_url ev))
      in if u = [] then Inr None
         else (case env_urlparse ev u of
                 None \<Rightarrow> Inl ValueError
               | Some parsed \<Rightarrow>
                   if url_path parsed = [] \<or> url_path parsed = ''/''
                   then Inr (Some (url_scheme parsed @ ''://'' @ url_netloc parsed @ ''/mcp''))
                   else Inr (Some (rstrip_slash u))))"

text \<open>The session header of \<open>_session_headers\<close>: present when the session id is non-empty.\<close>

definition session_headers :: "client_state \<Rightarrow> string option" where
  "session_headers g = (case remote_session_id g of None \<Rightarrow> None | Some sid \<Rightarrow> if sid = [] then None else Some sid)"

text \<open>\<open>await client.post(base, json=..., headers=_session_headers())\<close>.\<close>

definition post :: "'n env \<Rightarrow> string \<Rightarrow> string \<Rightarrow> bool \<Rightarrow> json option \<Rightarrow> 'n process \<Rightarrow> (py_error + response) \<times> 'n process" where
  "post ev base method has_id params p =
     (let rq = \<lparr>req_url = base, req_method = method, req_has_id = has_id, req_params = params,
                req_session = session_headers (globals p)\<rparr>
      in case env_post ev (net p) rq of
           (r, n') \<Rightarrow> ((case r of None \<Rightarrow> Inl TransportError | Some x \<Rightarrow> Inr x),
                       p\<lparr>net := n', sent := sent p @ [rq]\<rparr>))"

definition init_params :: json where
  "init_params = JObj [(''protocolVersion'', JStr ''2024-11-05''), (''capabilities'', JObj []),
     (''clientInfo'', JObj [(''name'', JStr ''AgentSocialS-backend''), (''version'', JStr ''1.0'')])]"

text \<open>
  Lines 94 to 121: the handshake. \<open>Inl\<close> is an exception that leaves
  \<open>_call_remote_tool\<close>; the process is returned in both cases, since the globals and the
  requests already sent stay as they are.
\<close>

definition handshake :: "'n env \<Rightarrow> string \<Rightarrow> 'n process \<Rightarrow> (py_error + unit) \<times> 'n process" where
  "handshake ev base p =
     (if remote_initialized (globals p) then (Inr (), p)
      else (case post ev base ''initialize'' True (Some init_params) p of
              (Inl e, p1) \<Rightarrow> (Inl e, p1)
            | (Inr ri, p1) \<Rightarrow>
                if \<not> is_success ri then (Inr (), p1)
                else (case body ri of
                        None \<Rightarrow> (Inl JSONDecodeError, p1)
                      | Some j \<Rightarrow>
                          (case contains_error (if jtruthy j then j else JObj []) of
                             Inl e \<Rightarrow> (Inl e, p1)
                           | Inr True \<Rightarrow> (Inr (), p1)
                           | Inr False \<Rightarrow>
                               (let p2 = p1\<lparr>globals := (globals p1)\<lparr>remote_initialized := True\<rparr>\<rparr>;
                                    h1 = str_or_empty (header_get ri ''mcp-session-id'');
                                    h = (if h1 \<noteq> [] then h1 else str_or_empty (header_get ri ''Mcp-Session-Id''));
                                    sid = strip h;
                                    p3 = (if sid \<noteq> [] then p2\<lparr>globals := (globals p2)\<lparr>remote_session_id := Some sid\<rparr>\<rparr> else p2)
                                in case post ev base ''notifications/initialized'' False None p3 of
                                     (Inl e, p4) \<Rightarrow> (Inl e, p4)
                                   | (Inr _, p4) \<Rightarrow> (Inr (), p4))))))"

definition call_remote_tool :: "'n env \<Rightarrow> string \<Rightarrow> json \<Rightarrow> 'n process \<Rightarrow> (py_error + json) \<times> 'n process" where
  "call_remote_tool ev name arguments p =
     (case mcp_base_url ev of
        Inl e \<Rightarrow> (Inl e, p)
      | Inr b \<Rightarrow>
          if str_or_empty b = [] then (Inl UrlNotSet, p)
          else (let base = str_or_empty b
                in case handshake ev base p of
                     (Inl e, p1) \<Rightarrow> (Inl e, p1)
                   | (Inr _, p1) \<Rightarrow>
                       (case post ev base ''tools/call'' True
                               (Some (JObj [(''name'', JStr name), (''arguments'', arguments)])) p1 of
                          (Inl e, p2) \<Rightarrow> (Inl e, p2)
                        | (Inr r, p2) \<Rightarrow>
                            if \<not> is_success r then (Inl (HTTPStatusError (status r)), p2)
                            else (case body r of
                                    None \<Rightarrow> (Inl JSONDecodeError, p2)
                                  | Some data \<Rightarrow> (tool_result (env_loads ev) data, p2)))))"


text \<open>
  \<open>_log_mode_once\<close>: the flag is set before the base URL is resolved, so an exception of
  \<open>_mcp_base_url\<close> leaves it set. The log lines themselves are not modelled.
\<close>

definition log_mode_once :: "'n env \<Rightarrow> 'n process \<Rightarrow> (py_error + unit) \<times> 'n process" where
  "log_mode_once ev p =
     (if mode_logged (globals p) then (Inr (), p)
      else (let p1 = p\<lparr>globals := (globals p)\<lparr>mode_logged := True\<rparr>\<rparr>
            in case mcp_base_url ev of
                 Inl e \<Rightarrow> (Inl e, p1)
               | Inr _ \<Rightarrow> (Inr (), p1)))"

definition get_tools :: "'n process \<Rightarrow> 'n process" where
  "get_tools p = p\<lparr>globals := (globals p)\<lparr>tools_resolved := True\<rparr>\<rparr>"

definition opt_int :: "int option \<Rightarrow> json" where
  "opt_int x = (case x of None \<Rightarrow> JNull | Some n \<Rightarrow> JNum n)"

definition opt_str :: "string option \<Rightarrow> json" where
  "opt_str x = (case x of None \<Rightarrow> JNull | Some v \<Rightarrow> JStr v)"

text \<open>\<open>metadata or {}\<close>, the metadata being a dict or \<open>None\<close>.\<close>

definition metadata_or_empty :: "(string \<times> json) list option \<Rightarrow> json" where
  "metadata_or_empty m = (case m of None \<Rightarrow> JObj [] | Some kvs \<Rightarrow> JObj kvs)"

definition call_publish_post ::
  "'n env \<Rightarrow> string \<Rightarrow> string \<Rightarrow> string \<Rightarrow> int option \<Rightarrow> string option \<Rightarrow> (string \<times> json) list option
     \<Rightarrow> 'n process \<Rightarrow> (py_error + json) \<times> 'n process" where
  "call_publish_post ev platform text user_id connection_id media_id metadata p =
     (case log_mode_once ev p of
        (Inl e, p1) \<Rightarrow> (Inl e, p1)
      | (Inr _, p1) \<Rightarrow>
          (case mcp_base_url ev of
             Inl e \<Rightarrow> (Inl e, p1)
           | Inr base \<Rightarrow>
               if str_or_empty base \<noteq> []
               then call_remote_tool ev ''publish_post_tool''
                      (JObj [(''platform'', JStr platform), (''text'', JStr text), (''user_id'', JStr user_id),
                             (''connection_id'', opt_int connection_id), (''media_id'', opt_str media_id),
                             (''metadata'', JStr (env_dumps ev (metadata_or_empty metadata)))]) p1
               else (let p2 = get_tools p1
                     in case env_publish_post ev (net p2)
                               [JStr platform, JStr text, JStr user_id, opt_int connection_id,
                                opt_str media_id, metadata_or_empty metadata] of
                          (r, n') \<Rightarrow> ((case r of None \<Rightarrow> Inl ToolError | Some x \<Rightarrow> Inr x), p2\<lparr>net := n'\<rparr>))))"

definition call_upload_media ::
  "'n env \<Rightarrow> string \<Rightarrow> string \<Rightarrow> string \<Rightarrow> int option \<Rightarrow> string option
     \<Rightarrow> 'n process \<Rightarrow> (py_error + json) \<times> 'n process" where
  "call_upload_media ev platform media_base64 user_id connection_id image_url p =
     (case log_mode_once ev p of
        (Inl e, p1) \<Rightarrow> (Inl e, p1)
      | (Inr _, p1) \<Rightarrow>
          (case mcp_base_url ev of
             Inl e \<Rightarrow> (Inl e, p1)
           | Inr base \<Rightarrow>
               if str_or_empty base \<noteq> []
               then call_remote_tool ev ''upload_media_tool''
                      (JObj [(''platform'', JStr platform), (''media_base64'', JStr media_base64),
                             (''user_id'', JStr user_id), (''connection_id'', opt_int connection_id),
                             (''image_url'', opt_str image_url)]) p1
               else (let p2 = get_tools p1
                     in case env_upload_media ev (net p2)
                               [JStr platform, JStr media_base64, JStr user_id, opt_int connection_id,
                                opt_str image_url] of
                          (r, n') \<Rightarrow> ((case r of None \<Rightarrow> Inl ToolError | Some x \<Rightarrow> Inr x), p2\<lparr>net := n'\<rparr>))))"

text \<open>The operations of the shim, and a run of several of them in one process.\<close>

datatype operation =
    PublishPost string string string "int option" "string option" "(string \<times> json) list option"
  | UploadMedia string string string "int option" "string option"
  | RemoteTool string json

fun run_op :: "'n env \<Rightarrow> operation \<Rightarrow> 'n process \<Rightarrow> (py_error + json) \<times> 'n process" where
  "run_op ev (PublishPost a b c d e f) p = call_publish_post ev a b c d e f p"
| "run_op ev (UploadMedia a b c d e) p = call_upload_media ev a b c d e p"
| "run_op ev (RemoteTool name args) p = call_remote_tool ev name args p"

fun run_ops :: "'n env \<Rightarrow> operation list \<Rightarrow> 'n process \<Rightarrow> 'n process" where
  "run_ops ev [] p = p"
| "run_ops ev (x # xs) p = run_ops ev xs (snd (run_op ev x p))"

definition fresh_process :: "'n \<Rightarrow> 'n process" where
  "fresh_process n = \<lparr>globals = \<lparr>mode_logged = False, tools_resolved = False,
       remote_initialized = False, remote_session_id = None\<rparr>, net = n, sent = []\<rparr>"

section \<open>Example data\<close>

text \<open>
  Four image dicts in a store: two on the article's host, and the same CDN address twice.
\<close>

definition ex_store :: store where
  "ex_store = image_store
     [[''src'' \<mapsto> VStr ''https://example.com/b.jpg'', ''width'' \<mapsto> VInt 50, ''height'' \<mapsto> VInt 50],
      [''src'' \<mapsto> VStr ''https://cdn.example.com/a.jpg'', ''width'' \<mapsto> VInt 100, ''height'' \<mapsto> VInt 100],
      [''src'' \<mapsto> VStr ''https://example.com/c.jpg''],
      [''src'' \<mapsto> VStr ''https://cdn.example.com/a.jpg'', ''alt'' \<mapsto> VStr ''again'']]"

section \<open>Ordering the candidates\<close>

lemma filter_neq_nth:
  "distinct xs \<Longrightarrow> k < length xs \<Longrightarrow> filter (\<lambda>i. i \<noteq> xs ! k) xs = take k xs @ drop (Suc k) xs"
proof (induction xs arbitrary: k)
  case Nil
  then show ?case by simp
next
  case (Cons x xs)
  show ?case
  proof (cases k)
    case 0
    with Cons.prems show ?thesis by (auto intro: filter_True)
  next
    case (Suc m)
    with Cons.prems have "m < length xs" "distinct xs" "xs ! m \<noteq> x" by auto
    with Cons.IH[of m] Suc show ?thesis by simp
  qed
qed

lemma og_match_iff: "og \<noteq> [] \<Longrightarrow> og_match st og r = (dget (st r) ''src'' = VStr og)"
  by (cases "dget (st r) ''src''") (auto simp: og_match_def py_or_def)

lemma ordered_candidates_first_match:
  assumes "og \<noteq> []" and "k < length images" and "dget (st (images ! k)) ''src'' = VStr og"
    and "\<forall>j<k. dget (st (images ! j)) ''src'' \<noteq> VStr og"
  shows "ordered_candidates up st images article_url og
           = Inr (images ! k # filter (\<lambda>i. i \<noteq> images ! k) images)"
proof -
  have "find (og_match st og) images = Some (images ! k)"
    using assms by (auto simp: find_Some_iff og_match_iff)
  moreover have "images \<noteq> []" using assms(2) by auto
  ultimately show ?thesis using assms(1) by (simp add: ordered_candidates_def)
qed

lemma first_match_exists:
  assumes "r \<in> set images" and "P r"
  shows "\<exists>k<length images. P (images ! k) \<and> (\<forall>j<k. \<not> P (images ! j))"
proof -
  from assms obtain x where "find P images = Some x"
    by (cases "find P images") (auto simp: find_None_iff)
  then show ?thesis by (auto simp: find_Some_iff)
qed

text \<open>
  Claim C4. When \<open>og\<close> is non-empty and the \<open>src\<close> of some candidate equals it,
  \<open>_ordered_candidates\<close> returns a candidate with that \<open>src\<close> first, followed by the
  other candidates in their input order, with no sorting: the rest is the input without the
  object moved to the front, which for distinct objects is the input with one position
  taken out.
\<close>

theorem og_match_moves_to_front:
  assumes "og \<noteq> []" and "r \<in> set images" and "dget (st r) ''src'' = VStr og"
  shows "\<exists>k<length images.
           dget (st (images ! k)) ''src'' = VStr og
         \<and> ordered_candidates up st images article_url og
             = Inr (images ! k # filter (\<lambda>i. i \<noteq> images ! k) images)
         \<and> (distinct images \<longrightarrow>
              filter (\<lambda>i. i \<noteq> images ! k) images = take k images @ drop (Suc k) images)"
proof -
  from first_match_exists[of r images "\<lambda>x. dget (st x) ''src'' = VStr og"] assms
  obtain k where k: "k < length images" "dget (st (images ! k)) ''src'' = VStr og"
    "\<forall>j<k. dget (st (images ! j)) ''src'' \<noteq> VStr og" by blast
  from ordered_candidates_first_match[OF assms(1) k] k(1,2) show ?thesis
    by (auto simp: filter_neq_nth intro!: exI[of _ k])
qed

lemma ex_store_src:
  "dget (ex_store 0) ''src'' = VStr ''https://example.com/b.jpg''"
  "dget (ex_store 1) ''src'' = VStr ''https://cdn.example.com/a.jpg''"
  "dget (ex_store 2) ''src'' = VStr ''https://example.com/c.jpg''"
  "dget (ex_store 3) ''src'' = VStr ''https://cdn.example.com/a.jpg''"
  by (simp_all add: ex_store_def image_store_def dget_def)

theorem og_match_moves_to_front_witness:
  "ordered_candidates urlparse_std ex_store [0, 1, 2] ''https://example.com/post''
     ''https://cdn.example.com/a.jpg'' = Inr [1, 0, 2]"
proof -
  have h1: "''https://cdn.example.com/a.jpg'' \<noteq> []" by simp
  have h2: "(1::nat) \<in> set [0, 1, 2]" by simp
  have h3: "dget (ex_store 1) ''src'' = VStr ''https://cdn.example.com/a.jpg''" by (rule ex_store_src)
  from og_match_moves_to_front[of "''https://cdn.example.com/a.jpg''" 1 "[0, 1, 2]" ex_store
      urlparse_std "''https://example.com/post''"] h1 h2 h3
  obtain k where k: "k < length [0::nat, 1, 2]"
      "dget (ex_store ([0, 1, 2] ! k)) ''src'' = VStr ''https://cdn.example.com/a.jpg''"
      "ordered_candidates urlparse_std ex_store [0, 1, 2] ''https://example.com/post''
          ''https://cdn.example.com/a.jpg'' = Inr ([0, 1, 2] ! k # filter (\<lambda>i. i \<noteq> [0, 1, 2] ! k) [0, 1, 2])"
    by blast
  from k(1) have "k = 0 \<or> k = 1 \<or> k = 2" by auto
  with k(2) have "k = 1" by (auto simp: ex_store_src)
  with k(3) show ?thesis by simp
qed

text \<open>
  Claim C9. When \<open>og\<close> is non-empty and several distinct candidates have it as their
  \<open>src\<close>, the first of them in input order moves to the front; every candidate behind it,
  later matches included, stays at its index, and nothing is sorted.
\<close>

theorem first_of_several_og_matches:
  assumes "og \<noteq> []" and "distinct images" and "k1 < k2" and "k2 < length images"
    and "dget (st (images ! k1)) ''src'' = VStr og"
    and "dget (st (images ! k2)) ''src'' = VStr og"
    and "\<forall>j<k1. dget (st (images ! j)) ''src'' \<noteq> VStr og"
  shows "ordered_candidates up st images article_url og
           = Inr (images ! k1 # take k1 images @ drop (Suc k1) images)
         \<and> (images ! k1 # take k1 images @ drop (Suc k1) images) ! k2 = images ! k2
         \<and> (\<forall>j. k1 < j \<and> j < length images \<longrightarrow>
                (images ! k1 # take k1 images @ drop (Suc k1) images) ! j = images ! j)"
proof -
  have k1: "k1 < length images" using assms(3,4) by simp
  have pos: "(images ! k1 # take k1 images @ drop (Suc k1) images) ! j = images ! j"
    if "k1 < j" "j < length images" for j
  proof -
    from that obtain m where m: "j = Suc m" "k1 \<le> m" by (cases j) auto
    with that k1 show ?thesis by (simp add: nth_append min_def)
  qed
  from ordered_candidates_first_match[OF assms(1) k1 assms(5,7)] assms(2) k1
  have "ordered_candidates up st images article_url og
           = Inr (images ! k1 # take k1 images @ drop (Suc k1) images)"
    by (simp add: filter_neq_nth)
  with pos assms(3,4) show ?thesis by simp
qed

theorem first_of_several_og_matches_witness:
  "ordered_candidates urlparse_std ex_store [0, 1, 2, 3] ''https://example.com/post''
     ''https://cdn.example.com/a.jpg'' = Inr [1, 0, 2, 3]"
proof -
  have h: "''https://cdn.example.com/a.jpg'' \<noteq> []" "distinct [0::nat, 1, 2, 3]" "(1::nat) < 3"
    "3 < length [0::nat, 1, 2, 3]"
    "dget (ex_store ([0, 1, 2, 3] ! 1)) ''src'' = VStr ''https://cdn.example.com/a.jpg''"
    "dget (ex_store ([0, 1, 2, 3] ! 3)) ''src'' = VStr ''https://cdn.example.com/a.jpg''"
    "\<forall>j<1. dget (ex_store ([0, 1, 2, 3] ! j)) ''src'' \<noteq> VStr ''https://cdn.example.com/a.jpg''"
    by (simp_all add: ex_store_def image_store_def dget_def)
  from first_of_several_og_matches[OF h, of urlparse_std "''https://example.com/post''"]
  show ?thesis by simp
qed

end
